theory Spec2Isabelle
  imports Main
begin

section \<open>Data model of tableprinter.go\<close>

text \<open>
  \<^verbatim>\<open>type Alignment int\<close> with the four constants declared by \<^verbatim>\<open>iota\<close>.
\<close>

type_synonym Alignment = int

definition AlignDefault :: Alignment where "AlignDefault = 0"
definition AlignRight :: Alignment where "AlignRight = 2"
definition AlignLeft :: Alignment where "AlignLeft = 3"

subsection \<open>The external renderer\<close>

text \<open>
  \<^verbatim>\<open>tablewriter.Table\<close> belongs to the imported package
  \<^verbatim>\<open>github.com/kataras/tablewriter\<close>; its code is not part of this repository.
  The record below holds what the calls made by tableprinter.go store in it: the ten
  settings of \<^verbatim>\<open>acquireTable\<close>, the headers, the rows and the per-column
  alignment list. The definitions follow what the package does with these calls:
  the ten setters of \<^verbatim>\<open>acquireTable\<close> store their argument;
  \<^verbatim>\<open>SetHeader\<close> appends its keys to the headers the table holds;
  \<^verbatim>\<open>AppendBulk\<close> appends its rows to the rows the table holds;
  \<^verbatim>\<open>SetColumnAlignment\<close> appends its keys to the per-column list, storing 0
  (the package's default alignment) for a key other than 1, 2 and 3;
  \<^verbatim>\<open>ClearHeaders\<close> and \<^verbatim>\<open>ClearRows\<close> empty the headers and the rows, and
  nothing empties the per-column list. When a row is drawn, column \<open>y\<close> takes entry
  \<open>y\<close> of that list. What else the package does is a parameter (record
  \<open>renderer\<close>): the value of \<^verbatim>\<open>NumLines\<close>, the table that the drawing
  \<^verbatim>\<open>Render()\<close> leaves, and the whole of \<^verbatim>\<open>RenderRowOnce\<close>. A drawing is
  recorded as an event on the writer, with the table as the drawing call receives it,
  not as text.
\<close>

record Border =
  Top :: bool
  Left :: bool
  Right :: bool
  Bottom :: bool

record Table =
  tAlign :: int
  tAutoFormatHeaders :: bool
  tAutoWrapText :: bool
  tBorders :: Border
  tHeaderLine :: bool
  tHeaderAlignment :: int
  tRowLine :: bool
  tColumnSeparator :: string
  tNewLine :: string
  tCenterSeparator :: string
  tHeaders :: "string list"
  tLines :: "string list list"
  tColumnsAlign :: "int list"

text \<open>What reaches the \<^verbatim>\<open>io.Writer\<close>: one event per drawing call of the package.\<close>

datatype drawing = DrawTable Table | DrawRowOnce Table "string list"

text \<open>The table that a drawing call received.\<close>

fun drawnTable :: "drawing \<Rightarrow> Table" where
  "drawnTable (DrawTable t) = t"
| "drawnTable (DrawRowOnce t row) = t"

record renderer =
  numLines :: "Table \<Rightarrow> int"
  draw :: "Table \<Rightarrow> Table"
  renderRowOnce :: "Table \<Rightarrow> string list \<Rightarrow> int \<times> Table"

definition NewWriter :: Table where
  "NewWriter = \<lparr> tAlign = 0, tAutoFormatHeaders = True, tAutoWrapText = True,
     tBorders = \<lparr> Top = True, Left = True, Right = True, Bottom = True \<rparr>,
     tHeaderLine = True, tHeaderAlignment = 0, tRowLine = False,
     tColumnSeparator = ''|'', tNewLine = [CHR 0x0A], tCenterSeparator = ''+'',
     tHeaders = [], tLines = [], tColumnsAlign = [] \<rparr>"

definition ClearHeaders :: "Table \<Rightarrow> Table" where
  "ClearHeaders t = t\<lparr> tHeaders := [] \<rparr>"

definition ClearRows :: "Table \<Rightarrow> Table" where
  "ClearRows t = t\<lparr> tLines := [] \<rparr>"

definition SetHeader :: "string list \<Rightarrow> Table \<Rightarrow> Table" where
  "SetHeader keys t = t\<lparr> tHeaders := tHeaders t @ keys \<rparr>"

definition AppendBulk :: "string list list \<Rightarrow> Table \<Rightarrow> Table" where
  "AppendBulk rows t = t\<lparr> tLines := tLines t @ rows \<rparr>"

text \<open>
  The alignment that \<^verbatim>\<open>SetColumnAlignment\<close> stores for a key: the key when it is
  one of the package's \<^verbatim>\<open>ALIGN_CENTER\<close> (1), \<^verbatim>\<open>ALIGN_RIGHT\<close> (2) and
  \<^verbatim>\<open>ALIGN_LEFT\<close> (3), and \<^verbatim>\<open>ALIGN_DEFAULT\<close> (0) otherwise.
\<close>

definition storedAlignment :: "int \<Rightarrow> int" where
  "storedAlignment v = (if v = 1 \<or> v = 2 \<or> v = 3 then v else 0)"

definition SetColumnAlignment :: "int list \<Rightarrow> Table \<Rightarrow> Table" where
  "SetColumnAlignment keys t = t\<lparr> tColumnsAlign := tColumnsAlign t @ map storedAlignment keys \<rparr>"

subsection \<open>The printer\<close>

text \<open>
  \<^verbatim>\<open>type Printer struct\<close>. The writer \<open>out\<close> is the list of drawings written so
  far; \<^verbatim>\<open>RowLengthTitle\<close> is a function value that may be nil; \<open>table\<close> is the
  pointer to the cached renderer, nil until \<^verbatim>\<open>acquireTable\<close> creates it.
\<close>

record Printer =
  out :: "drawing list"
  AutoFormatHeaders :: bool
  AutoWrapText :: bool
  BorderTop :: bool
  BorderLeft :: bool
  BorderRight :: bool
  BorderBottom :: bool
  HeaderLine :: bool
  HeaderAlignment :: Alignment
  RowLine :: bool
  ColumnSeparator :: string
  NewLine :: string
  CenterSeparator :: string
  DefaultAlignment :: Alignment
  NumbersAlignment :: Alignment
  RowLengthTitle :: "(int \<Rightarrow> bool) option"
  AllowRowsOnly :: bool
  table :: "Table option"

text \<open>\<^verbatim>\<open>var Default = Printer{...}\<close>, on the standard output (nothing written yet).\<close>

definition Default :: Printer where
  "Default = \<lparr> out = [], AutoFormatHeaders = True, AutoWrapText = False,
     BorderTop = False, BorderLeft = False, BorderRight = False, BorderBottom = False,
     HeaderLine = True, HeaderAlignment = AlignLeft, RowLine = False,
     ColumnSeparator = '' '', NewLine = [CHR 0x0A], CenterSeparator = '' '',
     DefaultAlignment = AlignLeft, NumbersAlignment = AlignRight,
     RowLengthTitle = Some (\<lambda>rowsLength. rowsLength > 3),
     AllowRowsOnly = True, table = None \<rparr>"

text \<open>\<^verbatim>\<open>func New(w io.Writer) *Printer\<close>: the defaults on the writer \<open>w\<close>.\<close>

definition New :: "drawing list \<Rightarrow> Printer" where
  "New w = \<lparr> out = w,
     AutoFormatHeaders = AutoFormatHeaders Default, AutoWrapText = AutoWrapText Default,
     BorderTop = BorderTop Default, BorderLeft = BorderLeft Default,
     BorderRight = BorderRight Default, BorderBottom = BorderBottom Default,
     HeaderLine = HeaderLine Default, HeaderAlignment = HeaderAlignment Default,
     RowLine = RowLine Default, ColumnSeparator = ColumnSeparator Default,
     NewLine = NewLine Default, CenterSeparator = CenterSeparator Default,
     DefaultAlignment = DefaultAlignment Default, NumbersAlignment = NumbersAlignment Default,
     RowLengthTitle = RowLengthTitle Default, AllowRowsOnly = AllowRowsOnly Default,
     table = None \<rparr>"

text \<open>
  \<^verbatim>\<open>func (p *Printer) acquireTable() *tablewriter.Table\<close>: the cached table when
  there is one; otherwise a new table that receives the ten settings and is cached.
  The result is the table together with the printer as the call leaves it.
\<close>

definition acquireTable :: "Printer \<Rightarrow> Table \<times> Printer" where
  "acquireTable p =
     (case table p of
        Some t \<Rightarrow> (t, p)
      | None \<Rightarrow>
          (let t = NewWriter\<lparr>
                 tAlign := DefaultAlignment p,
                 tAutoFormatHeaders := AutoFormatHeaders p,
                 tAutoWrapText := AutoWrapText p,
                 tBorders := \<lparr> Top = BorderTop p, Left = BorderLeft p,
                               Right = BorderRight p, Bottom = BorderBottom p \<rparr>,
                 tHeaderLine := HeaderLine p,
                 tHeaderAlignment := HeaderAlignment p,
                 tRowLine := RowLine p,
                 tColumnSeparator := ColumnSeparator p,
                 tNewLine := NewLine p,
                 tCenterSeparator := CenterSeparator p \<rparr>
           in (t, p\<lparr> table := Some t \<rparr>)))"

text \<open>
  \<^verbatim>\<open>func (p *Printer) calculateColumnAlignment(numbersColsPosition []int, size int) []int\<close>.
  \<open>sz\<close> (the parameter \<^verbatim>\<open>size\<close>) is a slice length at both call sites (\<^verbatim>\<open>len(headers)\<close>,
  \<^verbatim>\<open>len(row)\<close>), hence a natural number. \<open>numbersLoop\<close> is the inner
  \<^verbatim>\<open>for _, j := range numbersColsPosition\<close> with its \<^verbatim>\<open>break\<close>; the
  positions are Go ints and may be negative.
\<close>

fun numbersLoop :: "Printer \<Rightarrow> int \<Rightarrow> int list \<Rightarrow> int \<Rightarrow> int" where
  "numbersLoop p i [] a = a"
| "numbersLoop p i (j # js) a = (if i = j then NumbersAlignment p else numbersLoop p i js a)"

definition calculateColumnAlignment :: "Printer \<Rightarrow> int list \<Rightarrow> nat \<Rightarrow> int list" where
  "calculateColumnAlignment p numbersColsPosition sz =
     map (\<lambda>i. numbersLoop p (int i) numbersColsPosition (DefaultAlignment p)) [0..<sz]"

subsection \<open>Slices in memory\<close>

text \<open>
  A Go slice refers to a backing array, and \<^verbatim>\<open>Render\<close> writes to the one of its
  \<^verbatim>\<open>headers\<close> argument, so the caller's memory is explicit: a store maps the
  address of a backing array to its contents, a \<^verbatim>\<open>[]string\<close> argument is the
  address of its array (the slice spans the whole array; a nil or empty slice is an
  address holding \<open>[]\<close>), and \<^verbatim>\<open>rows [][]string\<close> is the list of the
  addresses of its rows. Two slices share memory exactly when their addresses are equal.
\<close>

type_synonym addr = nat
type_synonym store = "addr \<Rightarrow> string list"

text \<open>\<^verbatim>\<open>%d\<close> of a length: the decimal digits of a natural number.\<close>

fun digits :: "nat \<Rightarrow> string" where
  "digits n = (if n < 10 then [''0123456789'' ! n]
               else digits (n div 10) @ [''0123456789'' ! (n mod 10)])"

declare digits.simps [simp del]

text \<open>\<^verbatim>\<open>fmt.Sprintf("%s (%d) ", headers[0], len(rows))\<close>\<close>

definition rowLengthLabel :: "string \<Rightarrow> nat \<Rightarrow> string" where
  "rowLengthLabel h n = h @ '' ('' @ digits n @ '') ''"

text \<open>
  \<^verbatim>\<open>p.RowLengthTitle != nil && p.RowLengthTitle(len(rows))\<close>
\<close>

definition rowLengthTitleFires :: "Printer \<Rightarrow> nat \<Rightarrow> bool" where
  "rowLengthTitleFires p n = (case RowLengthTitle p of None \<Rightarrow> False | Some f \<Rightarrow> f (int n))"

subsection \<open>Render and RenderRow\<close>

text \<open>
  Lines 194 to 198 of \<^verbatim>\<open>Render\<close>, reached on two of its three paths:
  \<^verbatim>\<open>AppendBulk(rows)\<close>, \<^verbatim>\<open>SetColumnAlignment(...)\<close>, the drawing
  \<^verbatim>\<open>table.Render()\<close> and the result \<^verbatim>\<open>table.NumLines()\<close>, asked of the
  table that the drawing leaves. The rows are read from memory as it is at that point.
\<close>

definition appendAndDraw ::
  "renderer \<Rightarrow> Printer \<Rightarrow> store \<Rightarrow> addr \<Rightarrow> addr list \<Rightarrow> int list \<Rightarrow> Table
     \<Rightarrow> int \<times> Printer \<times> store" where
  "appendAndDraw R p mem headers rows numbersColsPosition t =
     (let t1 = AppendBulk (map mem rows) t;
          t2 = SetColumnAlignment
                 (calculateColumnAlignment p numbersColsPosition (length (mem headers))) t1;
          t3 = draw R t2
      in (numLines R t3, p\<lparr> out := out p @ [DrawTable t2], table := Some t3 \<rparr>, mem))"

text \<open>
  Lines 177 to 182: \<^verbatim>\<open>if reset { table.ClearHeaders(); table.ClearRows() }\<close>
\<close>

definition resetTable :: "bool \<Rightarrow> Table \<Rightarrow> Table" where
  "resetTable reset t = (if reset then ClearRows (ClearHeaders t) else t)"

text \<open>
  Lines 185 to 187: when the row-count policy fires, the assignment
  \<^verbatim>\<open>headers[0] = fmt.Sprintf(...)\<close> to the backing array of \<^verbatim>\<open>headers\<close>
  (non-empty there, so index 0 exists).
\<close>

definition rewriteFirstHeader :: "Printer \<Rightarrow> store \<Rightarrow> addr \<Rightarrow> nat \<Rightarrow> store" where
  "rewriteFirstHeader p mem headers n =
     (if rowLengthTitleFires p n
      then mem(headers := (mem headers)[0 := rowLengthLabel (mem headers ! 0) n])
      else mem)"

text \<open>
  \<^verbatim>\<open>func (p *Printer) Render(headers []string, rows [][]string,
  numbersColsPosition []int, reset bool) int\<close>. The result is the returned integer,
  the printer (with its writer and its cached table) and the memory after the call.
\<close>

definition Printer_Render ::
  "renderer \<Rightarrow> Printer \<Rightarrow> store \<Rightarrow> addr \<Rightarrow> addr list \<Rightarrow> int list \<Rightarrow> bool
     \<Rightarrow> int \<times> Printer \<times> store" where
  "Printer_Render R p0 mem headers rows numbersColsPosition reset =
     (let (t0, p) = acquireTable p0;
          t = resetTable reset t0
      in if length (mem headers) > 0 then
           (let mem' = rewriteFirstHeader p mem headers (length rows)
            in appendAndDraw R p mem' headers rows numbersColsPosition
                 (SetHeader (mem' headers) t))
         else if \<not> AllowRowsOnly p then (0, p\<lparr> table := Some t \<rparr>, mem)
         else appendAndDraw R p mem headers rows numbersColsPosition t)"

text \<open>
  \<^verbatim>\<open>func Render(w io.Writer, headers, rows, numbersColsPosition, reset) int\<close>
\<close>

definition Render ::
  "renderer \<Rightarrow> drawing list \<Rightarrow> store \<Rightarrow> addr \<Rightarrow> addr list \<Rightarrow> int list \<Rightarrow> bool
     \<Rightarrow> int \<times> Printer \<times> store" where
  "Render R w mem headers rows numbersColsPosition reset =
     Printer_Render R (New w) mem headers rows numbersColsPosition reset"


subsection \<open>PrintHeadList\<close>

text \<open>
  \<^verbatim>\<open>PrintHeadList\<close> works on a value of any type \<open>'v\<close> through three functions
  that tableprinter.go uses and does not define: \<^verbatim>\<open>indirectValue\<close> and
  \<^verbatim>\<open>extractCells\<close> (other files of the package; \<^verbatim>\<open>extractCells\<close> is always
  called with \<^verbatim>\<open>emptyHeader\<close> and \<^verbatim>\<open>true\<close>, so only the position and the
  value remain), and the reflection of a slice: \<open>sliceItems v\<close> is the list of the
  elements when \<^verbatim>\<open>v.Kind() == reflect.Slice\<close> and \<open>None\<close> otherwise. They are
  parameters. A filter is a function of an element: \<open>None\<close> when the element is not of
  the shape it accepts, its verdict otherwise.
\<close>

record 'v reflection =
  indirectValue :: "'v \<Rightarrow> 'v"
  sliceItems :: "'v \<Rightarrow> 'v list option"
  extractCells :: "nat \<Rightarrow> 'v \<Rightarrow> int list \<times> string list"

type_synonym 'v filter = "'v \<Rightarrow> bool option"

text \<open>
  The loop \<^verbatim>\<open>for i, n := 0, items.Len(); i < n; i++\<close>, from index \<open>i\<close> on the
  items that remain.
\<close>

fun headListLoop ::
  "'v reflection \<Rightarrow> nat \<Rightarrow> 'v list \<Rightarrow> string list list \<Rightarrow> int list
     \<Rightarrow> string list list \<times> int list" where
  "headListLoop X i [] rows numbersColsPosition = (rows, numbersColsPosition)"
| "headListLoop X i (item # items) rows numbersColsPosition =
     (let (c, r) = extractCells X i (indirectValue X item)
      in headListLoop X (Suc i) items (rows @ [r]) (numbersColsPosition @ c))"

text \<open>
  The slices that \<^verbatim>\<open>PrintHeadList\<close> builds are new: \<^verbatim>\<open>headers\<close> is placed
  at address 0 and row \<open>k\<close> at address \<open>k + 1\<close> of a memory of its own.
\<close>

definition headListStore :: "string \<Rightarrow> string list list \<Rightarrow> store" where
  "headListStore header rows =
     (\<lambda>a. if a = 0 then [header] else if a \<le> length rows then rows ! (a - 1) else [])"

text \<open>
  \<^verbatim>\<open>func (p *Printer) PrintHeadList(list interface{}, header string,
  filters ...interface{}) int\<close>
\<close>

definition Printer_PrintHeadList ::
  "renderer \<Rightarrow> 'v reflection \<Rightarrow> Printer \<Rightarrow> 'v \<Rightarrow> string \<Rightarrow> 'v filter list
     \<Rightarrow> int \<times> Printer" where
  "Printer_PrintHeadList R X p list header filters =
     (let items = indirectValue X list
      in case sliceItems X items of
           None \<Rightarrow> (0, p)
         | Some xs \<Rightarrow>
             (let (rows, numbersColsPosition) = headListLoop X 0 xs [] [];
                  (n, p', mem') =
                     Printer_Render R p (headListStore header rows) 0
                       [1..<Suc (length rows)] numbersColsPosition True
              in (n, p')))"

text \<open>\<^verbatim>\<open>func PrintHeadList(w io.Writer, list, header, filters...) int\<close>\<close>

definition PrintHeadList ::
  "renderer \<Rightarrow> 'v reflection \<Rightarrow> drawing list \<Rightarrow> 'v \<Rightarrow> string \<Rightarrow> 'v filter list
     \<Rightarrow> int \<times> Printer" where
  "PrintHeadList R X w list header filters =
     Printer_PrintHeadList R X (New w) list header filters"

subsection \<open>The settings of a table\<close>



subsection \<open>A renderer for the examples\<close>

text \<open>
  The renderer of the examples is the package as it behaves: \<^verbatim>\<open>NumLines\<close> is the
  number of rows the table holds. Before a row of \<open>n\<close> columns is drawn, a per-column
  list shorter than \<open>n\<close> is replaced by \<open>n\<close> copies of the table's alignment setting
  (\<open>fillAlignment\<close>); \<^verbatim>\<open>Render()\<close> draws the rows the table holds, one after the
  other, and changes nothing else of the table. \<^verbatim>\<open>RenderRowOnce\<close> draws the given
  row, does not add it to the rows of the table, and returns \<^verbatim>\<open>NumLines\<close>.
\<close>

definition fillAlignment :: "nat \<Rightarrow> Table \<Rightarrow> Table" where
  "fillAlignment n t =
     (if length (tColumnsAlign t) < n then t\<lparr> tColumnsAlign := replicate n (tAlign t) \<rparr> else t)"

definition printRows :: "Table \<Rightarrow> Table" where
  "printRows t = fold (\<lambda>row. fillAlignment (length row)) (tLines t) t"

definition rowCounting :: renderer where
  "rowCounting = \<lparr> numLines = (\<lambda>t. int (length (tLines t))),
                    draw = printRows,
                    renderRowOnce = (\<lambda>t row. (int (length (tLines t)), fillAlignment (length row) t)) \<rparr>"

subsection \<open>Example inputs\<close>

text \<open>
  A caller's memory with the headers \<open>Name\<close>, \<open>Age\<close> at address 0 and two rows at
  addresses 1 and 2; and a memory whose only array, at address 0, is \<open>Name\<close>, for the
  calls in which the rows are the headers slice itself.
\<close>

definition peopleStore :: store where
  "peopleStore =
     (\<lambda>a. if a = 0 then [''Name'', ''Age''] else if a = 1 then [''a'', ''3'']
          else if a = 2 then [''b'', ''30''] else [])"

definition sharedStore :: store where
  "sharedStore = (\<lambda>a. if a = 0 then [''Name''] else [])"


text \<open>The printer \<^verbatim>\<open>New(w)\<close> after a first \<^verbatim>\<open>Render\<close> of the two people.\<close>

definition renderedOnce :: Printer where
  "renderedOnce = fst (snd (Printer_Render rowCounting (New []) peopleStore 0 [1, 2] [1] True))"

text \<open>
  Modelled from the spec: \<^verbatim>\<open>indirectValue\<close> and \<^verbatim>\<open>extractCells\<close> are not in
  tableprinter.go. For the examples, values are strings, integers, pointers and slices;
  the Value Normalizer strips pointers until it reaches a concrete value; the Row
  Extractor gives a scalar one cell holding its string form (a number in base 10) and
  records the position of a number; any other shape yields an empty row.
\<close>

datatype gvalue = GString string | GInt int | GPtr gvalue | GSlice "gvalue list"

fun go_indirectValue :: "gvalue \<Rightarrow> gvalue" where
  "go_indirectValue (GPtr v) = go_indirectValue v"
| "go_indirectValue v = v"

fun go_sliceItems :: "gvalue \<Rightarrow> gvalue list option" where
  "go_sliceItems (GSlice xs) = Some xs"
| "go_sliceItems v = None"

fun go_extractCells :: "nat \<Rightarrow> gvalue \<Rightarrow> int list \<times> string list" where
  "go_extractCells pos (GString s) = ([], [s])"
| "go_extractCells pos (GInt n) =
     ([int pos], [if n < 0 then ''-'' @ digits (nat (- n)) else digits (nat n)])"
| "go_extractCells pos v = ([], [])"




definition goReflection :: "gvalue reflection" where
  "goReflection = \<lparr> indirectValue = go_indirectValue, sliceItems = go_sliceItems,
                     extractCells = go_extractCells \<rparr>"

text \<open>
  Modelled from the spec: the Filter Engine's combined visibility function
  (\<^verbatim>\<open>MakeFilters\<close> and its \<^verbatim>\<open>CanAcceptRow\<close> are not in tableprinter.go): the
  first predicate whose accepted shape matches the element decides; an element that no
  predicate matches is visible.
\<close>

fun canAcceptRow :: "'v filter list \<Rightarrow> 'v \<Rightarrow> bool" where
  "canAcceptRow [] v = True"
| "canAcceptRow (f # fs) v = (case f v of Some b \<Rightarrow> b | None \<Rightarrow> canAcceptRow fs v)"

text \<open>A filter that accepts strings and hides every one of them.\<close>

fun hideStrings :: "gvalue filter" where
  "hideStrings (GString s) = Some False"
| "hideStrings v = None"

section \<open>Column alignment\<close>

lemma numbersLoop_eq:
  "numbersLoop p i js a = (if i \<in> set js then NumbersAlignment p else a)"
  by (induction js) auto


section \<open>What one call of Render does\<close>

lemma acquireTable_cached: "table p = Some t \<Longrightarrow> acquireTable p = (t, p)"
  by (simp add: acquireTable_def)

lemma acquireTable_snd: "snd (acquireTable p) = p\<lparr> table := Some (fst (acquireTable p)) \<rparr>"
  by (cases "table p") (simp_all add: acquireTable_def Let_def)

lemma calculateColumnAlignment_cong:
  "DefaultAlignment q = DefaultAlignment p \<Longrightarrow> NumbersAlignment q = NumbersAlignment p \<Longrightarrow>
   calculateColumnAlignment q js n = calculateColumnAlignment p js n"
  by (simp add: calculateColumnAlignment_def numbersLoop_eq)

lemma rowLengthTitleFires_table:
  "rowLengthTitleFires (p\<lparr> table := x \<rparr>) n = rowLengthTitleFires p n"
  by (simp add: rowLengthTitleFires_def)

lemma rewriteFirstHeader_table:
  "rewriteFirstHeader (p\<lparr> table := x \<rparr>) mem h n = rewriteFirstHeader p mem h n"
  by (simp add: rewriteFirstHeader_def rowLengthTitleFires_table)

lemma length_rewriteFirstHeader:
  "length (rewriteFirstHeader p mem h n h) = length (mem h)"
  by (simp add: rewriteFirstHeader_def)

lemma resetTable_eq:
  "resetTable reset t = (if reset then t\<lparr> tHeaders := [], tLines := [] \<rparr> else t)"
  by (simp add: resetTable_def ClearRows_def ClearHeaders_def)

lemma appendAndDraw_eq:
  "appendAndDraw R (p\<lparr> table := x \<rparr>) mem h rows js t =
     (let t2 = t\<lparr> tLines := tLines t @ map mem rows,
                   tColumnsAlign := tColumnsAlign t @
                     map storedAlignment (calculateColumnAlignment p js (length (mem h))) \<rparr>
      in (numLines R (draw R t2),
          p\<lparr> out := out p @ [DrawTable t2], table := Some (draw R t2) \<rparr>, mem))"
  by (simp add: appendAndDraw_def AppendBulk_def SetColumnAlignment_def Let_def
      calculateColumnAlignment_cong [of "p\<lparr> table := x \<rparr>" p])

lemma Render_empty_disallowed:
  "mem h = [] \<Longrightarrow> \<not> AllowRowsOnly p \<Longrightarrow>
   Printer_Render R p mem h rows js reset =
     (0, p\<lparr> table := Some (resetTable reset (fst (acquireTable p))) \<rparr>, mem)"
  using acquireTable_snd [of p]
  by (cases "acquireTable p") (simp add: Printer_Render_def)

lemma Render_empty_allowed:
  "mem h = [] \<Longrightarrow> AllowRowsOnly p \<Longrightarrow>
   Printer_Render R p mem h rows js reset =
     (let t = resetTable reset (fst (acquireTable p));
          t2 = t\<lparr> tLines := tLines t @ map mem rows \<rparr>
      in (numLines R (draw R t2),
          p\<lparr> out := out p @ [DrawTable t2], table := Some (draw R t2) \<rparr>, mem))"
  using acquireTable_snd [of p]
  by (cases "acquireTable p")
     (simp add: Printer_Render_def appendAndDraw_eq calculateColumnAlignment_def Let_def)

lemma Render_headers:
  "mem h \<noteq> [] \<Longrightarrow>
   Printer_Render R p mem h rows js reset =
     (let mem' = rewriteFirstHeader p mem h (length rows);
          t = resetTable reset (fst (acquireTable p));
          t2 = t\<lparr> tHeaders := tHeaders t @ mem' h, tLines := tLines t @ map mem' rows,
                   tColumnsAlign := tColumnsAlign t @
                     map storedAlignment (calculateColumnAlignment p js (length (mem h))) \<rparr>
      in (numLines R (draw R t2),
          p\<lparr> out := out p @ [DrawTable t2], table := Some (draw R t2) \<rparr>, mem'))"
  using acquireTable_snd [of p]
  by (cases "acquireTable p")
     (simp add: Printer_Render_def SetHeader_def rewriteFirstHeader_table
        appendAndDraw_eq Let_def length_rewriteFirstHeader)

lemma rewriteFirstHeader_empty: "mem h = [] \<Longrightarrow> rewriteFirstHeader p mem h n = mem"
  by (auto simp add: rewriteFirstHeader_def)

lemma Render_memory:
  "snd (snd (Printer_Render R p mem h rows js reset)) = rewriteFirstHeader p mem h (length rows)"
proof (cases "mem h = []")
  case True
  then show ?thesis
    by (cases "AllowRowsOnly p")
       (simp_all add: Render_empty_allowed Render_empty_disallowed Let_def rewriteFirstHeader_empty)
next
  case False
  then show ?thesis by (simp add: Render_headers Let_def)
qed

lemma New_fields:
  "AllowRowsOnly (New w) = True" "RowLengthTitle (New w) = Some (\<lambda>n. n > 3)"
  "DefaultAlignment (New w) = 3" "NumbersAlignment (New w) = 2" "table (New w) = None"
  "out (New w) = w"
  by (simp_all add: New_def Default_def AlignLeft_def AlignRight_def)

lemma tLines_fillAlignment: "tLines (fillAlignment n t) = tLines t"
  by (simp add: fillAlignment_def)

lemma tHeaders_fillAlignment: "tHeaders (fillAlignment n t) = tHeaders t"
  by (simp add: fillAlignment_def)

lemma fold_fillAlignment:
  "tLines (fold (\<lambda>row. fillAlignment (length row)) rs t) = tLines t \<and>
   tHeaders (fold (\<lambda>row. fillAlignment (length row)) rs t) = tHeaders t"
  by (induction rs arbitrary: t) (simp_all add: tLines_fillAlignment tHeaders_fillAlignment)

lemma tLines_printRows: "tLines (printRows t) = tLines t"
  by (simp add: printRows_def fold_fillAlignment)


lemma rowCounting_fields:
  "numLines rowCounting = (\<lambda>t. int (length (tLines t)))"
  "draw rowCounting = printRows"
  "renderRowOnce rowCounting = (\<lambda>t row. (int (length (tLines t)), fillAlignment (length row) t))"
  by (simp_all add: rowCounting_def)

lemma renderedOnce_table:
  "table renderedOnce =
     Some ((fst (acquireTable (New [])))
        \<lparr> tHeaders := [''Name'', ''Age''], tLines := [[''a'', ''3''], [''b'', ''30'']],
          tColumnsAlign := [3, 2] \<rparr>)"
  by (simp add: renderedOnce_def Render_headers peopleStore_def Let_def New_fields
      rewriteFirstHeader_def rowLengthTitleFires_def resetTable_eq rowCounting_fields
      calculateColumnAlignment_def numeral_2_eq_2 storedAlignment_def
      printRows_def fillAlignment_def acquireTable_def NewWriter_def)

lemma renderedOnce_fields:
  "DefaultAlignment renderedOnce = 3" "NumbersAlignment renderedOnce = 2"
  "AllowRowsOnly renderedOnce = True" "RowLengthTitle renderedOnce = Some (\<lambda>n. n > 3)"
  "ColumnSeparator renderedOnce = '' ''"
  by (simp_all add: renderedOnce_def Render_headers peopleStore_def Let_def New_fields)
     (simp add: New_def Default_def)


lemma Render_drawn:
  "mem h \<noteq> [] \<or> AllowRowsOnly p \<Longrightarrow>
   out (fst (snd (Printer_Render R p mem h rows js reset))) =
     out p @ [DrawTable
       ((resetTable reset (fst (acquireTable p)))
          \<lparr> tHeaders := tHeaders (resetTable reset (fst (acquireTable p))) @
                         rewriteFirstHeader p mem h (length rows) h,
            tLines := tLines (resetTable reset (fst (acquireTable p))) @
                      map (rewriteFirstHeader p mem h (length rows)) rows,
            tColumnsAlign := tColumnsAlign (fst (acquireTable p)) @
              map storedAlignment (calculateColumnAlignment p js (length (mem h))) \<rparr>)] \<and>
   table (fst (snd (Printer_Render R p mem h rows js reset))) =
     Some (draw R (drawnTable (last (out (fst (snd (Printer_Render R p mem h rows js reset))))))) \<and>
   fst (Printer_Render R p mem h rows js reset) =
     numLines R (draw R (drawnTable (last (out (fst (snd (Printer_Render R p mem h rows js reset)))))))"
proof (cases "mem h = []")
  case True
  assume "mem h \<noteq> [] \<or> AllowRowsOnly p"
  with True have a: "AllowRowsOnly p" by simp
  show ?thesis
    using True a
    by (simp add: Render_empty_allowed Let_def rewriteFirstHeader_empty resetTable_eq
        calculateColumnAlignment_def)
next
  case False
  then show ?thesis
    by (simp add: Render_headers Let_def resetTable_eq)
qed

lemma rewriteFirstHeader_out:
  "rewriteFirstHeader (p\<lparr> out := w, table := x \<rparr>) mem h n = rewriteFirstHeader p mem h n"
  by (simp add: rewriteFirstHeader_def rowLengthTitleFires_def)

lemma rewriteFirstHeader_agree:
  assumes "mem2 h = mem h" and "\<forall>r\<in>set rows. mem2 r = mem r"
  shows "map (rewriteFirstHeader p mem2 h n) rows = map (rewriteFirstHeader p mem h n) rows"
  using assms by (simp_all add: rewriteFirstHeader_def)

lemma Render_printer:
  "\<exists>w x. fst (snd (Printer_Render R p mem h rows js reset)) = p\<lparr> out := w, table := x \<rparr>"
proof (cases "mem h = []")
  case True
  show ?thesis
  proof (cases "AllowRowsOnly p")
    case False
    have "fst (snd (Printer_Render R p mem h rows js reset)) =
          p\<lparr> out := out p, table := Some (resetTable reset (fst (acquireTable p))) \<rparr>"
      using True False by (simp add: Render_empty_disallowed)
    then show ?thesis by blast
  next
    case a: True
    show ?thesis
      using True a by (simp add: Render_empty_allowed Let_def) blast
  qed
next
  case False
  then show ?thesis by (simp add: Render_headers Let_def) blast
qed

lemma Render_count_reset:
  assumes "mem h \<noteq> [] \<or> AllowRowsOnly p"
  shows "\<exists>T. fst (Printer_Render R p mem h rows js True) = numLines R (draw R T) \<and>
             tLines T = map (rewriteFirstHeader p mem h (length rows)) rows"
proof -
  let ?T = "drawnTable (last (out (fst (snd (Printer_Render R p mem h rows js True)))))"
  note d = Render_drawn [where mem = mem and h = h and p = p and R = R and rows = rows
      and js = js and reset = True]
  have "fst (Printer_Render R p mem h rows js True) = numLines R (draw R ?T)"
    using d assms by blast
  moreover have "tLines ?T = map (rewriteFirstHeader p mem h (length rows)) rows"
    using d assms by (simp add: resetTable_eq)
  ultimately show ?thesis by blast
qed









lemma headListLoop_eq:
  "headListLoop X i xs rows nums =
     (rows @ map (\<lambda>(k, x). snd (extractCells X k (indirectValue X x))) (zip [i..<i + length xs] xs),
      nums @ concat (map (\<lambda>(k, x). fst (extractCells X k (indirectValue X x)))
                       (zip [i..<i + length xs] xs)))"
proof (induction xs arbitrary: i rows nums)
  case Nil
  then show ?case by simp
next
  case (Cons x xs)
  have u: "[i..<i + length (x # xs)] = i # [Suc i..<Suc i + length xs]"
    using upt_conv_Cons [of i "i + length (x # xs)"] by (simp del: upt_Suc)
  show ?case
    unfolding u by (simp add: Cons.IH split_beta del: upt_Suc)
qed

lemma length_headListLoop: "length (fst (headListLoop X 0 xs [] [])) = length xs"
  by (simp add: headListLoop_eq)

lemma headListStore_rewritten_rows:
  "length rows = m \<Longrightarrow>
   map (rewriteFirstHeader p (headListStore header rows) 0 n) [Suc 0..<Suc m] = rows"
  by (rule nth_equalityI)
     (simp_all add: headListStore_def rewriteFirstHeader_def nth_upt del: upt_Suc)

lemma headListStore_header:
  "rewriteFirstHeader p (headListStore header rows) 0 n 0 =
     [if rowLengthTitleFires p n then header @ '' ('' @ digits n @ '') '' else header]"
  by (simp add: headListStore_def rewriteFirstHeader_def rowLengthLabel_def)

lemma PrintHeadList_eq:
  assumes "sliceItems X (indirectValue X list) = Some xs"
  shows "Printer_PrintHeadList R X p list header filters =
     (let t = (fst (acquireTable p))
                \<lparr> tHeaders := [if rowLengthTitleFires p (length xs)
                                then header @ '' ('' @ digits (length xs) @ '') '' else header],
                  tLines := fst (headListLoop X 0 xs [] []),
                  tColumnsAlign := tColumnsAlign (fst (acquireTable p)) @
                    map storedAlignment
                      (calculateColumnAlignment p (snd (headListLoop X 0 xs [] [])) 1) \<rparr>
      in (numLines R (draw R t), p\<lparr> out := out p @ [DrawTable t], table := Some (draw R t) \<rparr>))"
proof -
  have h: "headListStore header rows 0 \<noteq> []" for rows
    by (simp add: headListStore_def)
  have l: "length (headListStore header rows 0) = 1" for rows
    by (simp add: headListStore_def)
  show ?thesis
    using assms
    by (simp add: Printer_PrintHeadList_def Let_def split_beta
        Render_headers [where mem = "headListStore header rows" and h = 0 for rows, OF h]
        resetTable_eq headListStore_rewritten_rows headListStore_header l length_headListLoop
        del: upt_Suc)
qed

lemma goReflection_fields:
  "indirectValue goReflection = go_indirectValue" "sliceItems goReflection = go_sliceItems"
  "extractCells goReflection = go_extractCells"
  by (simp_all add: goReflection_def)

lemma PrintHeadList_filters_unused:
  "Printer_PrintHeadList R X p list header filters = Printer_PrintHeadList R X p list header []"
  by (simp add: Printer_PrintHeadList_def)






section \<open>Claims\<close>

text \<open>
  Claim C1. When the headers list is empty and \<^verbatim>\<open>AllowRowsOnly\<close> is false,
  \<^verbatim>\<open>Render\<close> returns 0 and draws nothing: the writer is as before, the cached table
  is the acquired one (emptied when \<open>reset\<close> is set) with no row appended, and the
  caller's memory is untouched. The call yields a value, not an error. The statement is
  about every call of the method, so it covers the calls made by \<^verbatim>\<open>Print\<close>,
  \<^verbatim>\<open>PrintJSON\<close> and \<^verbatim>\<open>PrintHeadList\<close>.
\<close>

theorem Render_nothing_to_print:
  assumes "mem headers = []" and "\<not> AllowRowsOnly p"
  shows "fst (Printer_Render R p mem headers rows js reset) = 0 \<and>
         out (fst (snd (Printer_Render R p mem headers rows js reset))) = out p \<and>
         table (fst (snd (Printer_Render R p mem headers rows js reset))) =
           Some (resetTable reset (fst (acquireTable p))) \<and>
         snd (snd (Printer_Render R p mem headers rows js reset)) = mem"
  using assms by (simp add: Render_empty_disallowed)

theorem Render_nothing_to_print_witness:
  "fst (Printer_Render rowCounting (Default\<lparr> AllowRowsOnly := False \<rparr>)
          (\<lambda>a. if a = 1 then [''x''] else []) 0 [1] [] True) = 0 \<and>
   out (fst (snd (Printer_Render rowCounting (Default\<lparr> AllowRowsOnly := False \<rparr>)
          (\<lambda>a. if a = 1 then [''x''] else []) 0 [1] [] True))) = []"
  using Render_nothing_to_print
    [where mem = "\<lambda>a. if a = 1 then [''x''] else []" and headers = 0
       and p = "Default\<lparr> AllowRowsOnly := False \<rparr>" and R = rowCounting
       and rows = "[1]" and js = "[]" and reset = True]
  by (simp add: Default_def)

text \<open>
  Claim C3. For every printer, size and list of numeric positions,
  \<^verbatim>\<open>calculateColumnAlignment\<close> returns exactly \<open>n\<close> alignments; position \<open>i\<close>
  holds \<open>NumbersAlignment\<close> when \<open>i\<close> occurs in the list and \<open>DefaultAlignment\<close>
  otherwise; and two lists with the same set of entries give the same result, so
  duplicates and order do not matter.
\<close>

theorem calculateColumnAlignment_positions:
  "length (calculateColumnAlignment p js n) = n \<and>
   (\<forall>i<n. calculateColumnAlignment p js n ! i =
      (if int i \<in> set js then NumbersAlignment p else DefaultAlignment p)) \<and>
   (\<forall>js'. set js' = set js \<longrightarrow>
      calculateColumnAlignment p js' n = calculateColumnAlignment p js n)"
  by (simp add: calculateColumnAlignment_def numbersLoop_eq)

theorem calculateColumnAlignment_positions_witness:
  "length (calculateColumnAlignment Default [2, 0, 2] 3) = 3 \<and>
   calculateColumnAlignment Default [2, 0, 2] 3 ! 1 = AlignLeft \<and>
   calculateColumnAlignment Default [2, 0, 2] 3 ! 2 = AlignRight \<and>
   calculateColumnAlignment Default [0, 2] 3 = calculateColumnAlignment Default [2, 0, 2] 3"
proof -
  note h = calculateColumnAlignment_positions [of Default "[2, 0, 2]" 3]
  have s: "set [0, 2::int] = set [2, 0, 2]" by auto
  have a: "length (calculateColumnAlignment Default [2, 0, 2] 3) = 3"
    by (rule h [THEN conjunct1])
  have n: "\<And>i. i < 3 \<Longrightarrow> calculateColumnAlignment Default [2, 0, 2] 3 ! i =
      (if int i \<in> set [2, 0, 2] then NumbersAlignment Default else DefaultAlignment Default)"
    using h [THEN conjunct2, THEN conjunct1] by blast
  have b: "calculateColumnAlignment Default [2, 0, 2] 3 ! 1 = AlignLeft"
    using n [of 1] by (simp add: Default_def)
  have c: "calculateColumnAlignment Default [2, 0, 2] 3 ! 2 = AlignRight"
    using n [of 2] by (simp add: Default_def)
  have d: "calculateColumnAlignment Default [0, 2] 3 =
           calculateColumnAlignment Default [2, 0, 2] 3"
    using h [THEN conjunct2, THEN conjunct2] s by blast
  show ?thesis using a b c d by blast
qed

text \<open>
  Claim C9, as amended. \<^verbatim>\<open>Render\<close> writes to the caller's memory in one place only:
  when the headers list is non-empty and the row-count policy fires, index 0 of the
  backing array of \<^verbatim>\<open>headers\<close> receives the rewritten label, which the caller sees
  through the same slice; every other array, so every row that does not share the
  memory of the headers, is as before; in every other call the memory is unchanged.
\<close>

theorem Render_writes_first_header_only:
  "snd (snd (Printer_Render R p mem headers rows js reset)) =
     (if mem headers \<noteq> [] \<and> rowLengthTitleFires p (length rows)
      then mem(headers := (mem headers)[0 := mem headers ! 0 @ '' ('' @ digits (length rows) @ '') ''])
      else mem)"
  by (auto simp add: Render_memory rewriteFirstHeader_def rowLengthLabel_def)

theorem Render_writes_first_header_only_witness:
  "snd (snd (Printer_Render rowCounting (New []) peopleStore 0 [1, 2, 1, 2] [1] True)) 0 =
     [''Name (4) '', ''Age''] \<and>
   snd (snd (Printer_Render rowCounting (New []) peopleStore 0 [1, 2, 1, 2] [1] True)) 1 =
     [''a'', ''3'']"
  using Render_writes_first_header_only
    [of rowCounting "New []" peopleStore 0 "[1, 2, 1, 2]" "[1]" True]
  by (simp add: peopleStore_def rowLengthTitleFires_def New_fields digits.simps)

text \<open>
  Claim C9 as stated fails on the same call: the first row is the headers slice, it
  held \<open>Name\<close> before the call and holds \<open>Name (4) \<close> after it.
\<close>

theorem Render_modifies_shared_row:
  "sharedStore ([0, 0, 0, 0] ! 0) = [''Name''] \<and>
   snd (snd (Printer_Render rowCounting (New []) sharedStore 0 [0, 0, 0, 0] [] True))
     ([0, 0, 0, 0] ! 0) = [''Name (4) '']"
  by (simp add: Render_memory rewriteFirstHeader_def rowLengthLabel_def sharedStore_def
      rowLengthTitleFires_def New_fields digits.simps)

text \<open>
  Claim C4, as amended. For a \<^verbatim>\<open>Render\<close> call with a non-empty headers list: when
  \<^verbatim>\<open>RowLengthTitle\<close> is set and true of the number of rows, the headers handed to
  the table are the caller's with index 0 replaced by the old label followed by
  \<open>" (N) "\<close>, N the number of rows in decimal, once, and every other header as it was;
  otherwise they are the caller's headers unchanged. The table adds them to the headers
  it holds (none after a reset). The rows handed to the table are the caller's rows,
  except that a row which is the headers slice itself holds what the headers hold after
  the rewrite.
\<close>

theorem Render_row_length_title:
  assumes "mem headers \<noteq> []"
  shows "\<exists>t. out (fst (snd (Printer_Render R p mem headers rows js reset))) =
          out p @ [DrawTable t] \<and>
     table (fst (snd (Printer_Render R p mem headers rows js reset))) = Some (draw R t) \<and>
     tHeaders t = tHeaders (resetTable reset (fst (acquireTable p))) @
       (if rowLengthTitleFires p (length rows)
        then (mem headers)[0 := mem headers ! 0 @ '' ('' @ digits (length rows) @ '') '']
        else mem headers) \<and>
     tLines t = tLines (resetTable reset (fst (acquireTable p))) @
       map (\<lambda>r. if r = headers
                then (if rowLengthTitleFires p (length rows)
                      then (mem headers)[0 := mem headers ! 0 @ '' ('' @ digits (length rows) @ '') '']
                      else mem headers)
                else mem r) rows"
  using assms
  by (auto simp add: Render_headers Let_def rewriteFirstHeader_def rowLengthLabel_def)

text \<open>
  A second \<^verbatim>\<open>Render\<close> without reset, of four rows: the policy fires, the table is
  drawn with the two headers of the first call followed by \<open>Name (4) \<close> and \<open>Age\<close>,
  and the four rows follow the two of the first call unchanged.
\<close>

theorem Render_row_length_title_witness:
  "\<exists>t. out (fst (snd (Printer_Render rowCounting renderedOnce peopleStore 0 [1, 2, 1, 2] [1] False)))
        = out renderedOnce @ [DrawTable t] \<and>
       tHeaders t = [''Name'', ''Age'', ''Name (4) '', ''Age''] \<and>
       tLines t = [[''a'', ''3''], [''b'', ''30''],
                   [''a'', ''3''], [''b'', ''30''], [''a'', ''3''], [''b'', ''30'']]"
  using Render_row_length_title
    [of peopleStore 0 rowCounting renderedOnce "[1, 2, 1, 2]" "[1]" False]
  by (simp add: peopleStore_def rowLengthTitleFires_def renderedOnce_fields digits.simps
      resetTable_eq acquireTable_cached [OF renderedOnce_table]) blast

text \<open>
  Claim C4 as stated fails where a row shares the memory of the headers: the default
  printer, the headers \<open>Name\<close> and four rows that are the headers slice itself. The
  policy fires, and each row reaches the table as \<open>Name (4) \<close>, not as \<open>Name\<close>.
\<close>

theorem Render_row_length_title_changes_shared_row:
  "map sharedStore [0, 0, 0, 0] = [[''Name''], [''Name''], [''Name''], [''Name'']] \<and>
   map_option tLines
     (table (fst (snd (Printer_Render rowCounting (New []) sharedStore 0 [0, 0, 0, 0] [] True)))) =
     Some [[''Name (4) ''], [''Name (4) ''], [''Name (4) ''], [''Name (4) '']]"
  by (simp add: Render_headers Let_def rewriteFirstHeader_def rowLengthLabel_def sharedStore_def
      rowLengthTitleFires_def New_fields digits.simps resetTable_eq rowCounting_fields
      tLines_printRows)


text \<open>
  Claim C5. Two \<^verbatim>\<open>Render\<close> calls with \<open>reset\<close> set, one after the other on the same
  printer, with the same headers, rows and numeric positions (the same slices, holding
  at the second call what they held at the first) return the same line count, for
  every renderer whose \<^verbatim>\<open>NumLines\<close> after a drawing is determined by the rows the
  table holds. The package's own count, the number of rows, is of that kind.
\<close>

theorem Render_reset_idempotent:
  assumes "\<forall>a b. tLines a = tLines b \<longrightarrow> numLines R (draw R a) = numLines R (draw R b)"
    and "mem2 headers = mem headers" and "\<forall>r\<in>set rows. mem2 r = mem r"
  shows "fst (Printer_Render R (fst (snd (Printer_Render R p mem headers rows js True)))
                mem2 headers rows js True) =
         fst (Printer_Render R p mem headers rows js True)"
proof -
  obtain w x where p1: "fst (snd (Printer_Render R p mem headers rows js True)) =
      p\<lparr> out := w, table := x \<rparr>"
    using Render_printer by blast
  show ?thesis
  proof (cases "mem headers \<noteq> [] \<or> AllowRowsOnly p")
    case False
    then show ?thesis
      unfolding p1 using assms(2) by (simp add: Render_empty_disallowed)
  next
    case True
    then have c2: "mem2 headers \<noteq> [] \<or> AllowRowsOnly (p\<lparr> out := w, table := x \<rparr>)"
      using assms(2) by simp
    obtain T where T: "fst (Printer_Render R p mem headers rows js True) = numLines R (draw R T)"
        "tLines T = map (rewriteFirstHeader p mem headers (length rows)) rows"
      using Render_count_reset [where mem = mem and h = headers and p = p] True by blast
    obtain T2 where T2:
        "fst (Printer_Render R (p\<lparr> out := w, table := x \<rparr>) mem2 headers rows js True) =
           numLines R (draw R T2)"
        "tLines T2 = map (rewriteFirstHeader (p\<lparr> out := w, table := x \<rparr>) mem2 headers
                            (length rows)) rows"
      using Render_count_reset
          [where mem = mem2 and h = headers and p = "p\<lparr> out := w, table := x \<rparr>"] c2
      by blast
    have "tLines T2 = tLines T"
      unfolding T(2) T2(2) rewriteFirstHeader_out
      by (rule rewriteFirstHeader_agree [OF assms(2) assms(3)])
    then have "numLines R (draw R T2) = numLines R (draw R T)"
      using assms(1) by blast
    then show ?thesis unfolding p1 T(1) T2(1) .
  qed
qed

theorem Render_reset_idempotent_witness:
  "fst (Printer_Render rowCounting (New []) peopleStore 0 [1, 2] [1] True) = 2 \<and>
   fst (Printer_Render rowCounting renderedOnce peopleStore 0 [1, 2] [1] True) = 2"
proof -
  have h: "\<forall>a b. tLines a = tLines b \<longrightarrow>
      numLines rowCounting (draw rowCounting a) = numLines rowCounting (draw rowCounting b)"
    by (simp add: rowCounting_fields tLines_printRows)
  have a: "fst (Printer_Render rowCounting (New []) peopleStore 0 [1, 2] [1] True) = 2"
    by (simp add: Render_headers Let_def peopleStore_def rowCounting_fields resetTable_eq
        tLines_printRows)
  have b: "fst (Printer_Render rowCounting renderedOnce peopleStore 0 [1, 2] [1] True) =
           fst (Printer_Render rowCounting (New []) peopleStore 0 [1, 2] [1] True)"
    unfolding renderedOnce_def by (rule Render_reset_idempotent [OF h]) simp_all
  show ?thesis using a b by simp
qed














text \<open>
  Claim C2. The filters decide which elements \<^verbatim>\<open>PrintHeadList\<close> shows. The code
  does not do that: \<^verbatim>\<open>PrintHeadList\<close> never reads its \<open>filters\<close> argument
  (\<open>PrintHeadList_filters_unused\<close>). On the list \<open>x, y\<close> with a filter that accepts
  strings and answers false for each, the combined visibility function hides both
  elements, and both rows are drawn.
\<close>

theorem PrintHeadList_shows_filtered_elements:
  "canAcceptRow [hideStrings] (GString ''x'') = False \<and>
   canAcceptRow [hideStrings] (GString ''y'') = False \<and>
   map_option tLines
     (table (snd (PrintHeadList rowCounting goReflection []
        (GSlice [GString ''x'', GString ''y'']) ''Item'' [hideStrings]))) =
     Some [[''x''], [''y'']] \<and>
   fst (PrintHeadList rowCounting goReflection []
        (GSlice [GString ''x'', GString ''y'']) ''Item'' [hideStrings]) = 2"
  by (simp add: PrintHeadList_def PrintHeadList_eq goReflection_fields Let_def
      rowCounting_fields tLines_printRows)

end
